theory Spec2Isabelle
  imports Main
begin

section \<open>JavaScript values and the remote service client\<close>

text \<open>
  Strings are lists of code units; a \<open>char\<close> stands for a code unit below 256.
  A value that may be \<open>undefined\<close> or \<open>null\<close> is an \<open>option\<close>.
  \<open>js_or x d\<close> is the expression \<open>x || d\<close> for such a string \<open>x\<close>: the
  empty string is falsy, like \<open>undefined\<close> and \<open>null\<close>. Writes to the console are
  left out.
\<close>

definition js_or :: "string option \<Rightarrow> string \<Rightarrow> string" where
  "js_or x d = (case x of None \<Rightarrow> d | Some s \<Rightarrow> if s = [] then d else s)"

text \<open>A template literal prints an undefined value as the word \<open>undefined\<close>.\<close>

definition template :: "string option \<Rightarrow> string" where
  "template x = (case x of None \<Rightarrow> ''undefined'' | Some s \<Rightarrow> s)"

text \<open>
  What a \<open>catch (err: any)\<close> block receives: a value whose \<open>message\<close> property may be
  missing. \<open>new Error(m)\<close> is \<open>Error (Some m)\<close>.
\<close>

datatype js_error = Error (message: "string option")

text \<open>
  The client answers \<open>{data, error}\<close>; the handlers bind the second component to
  \<open>supabaseError\<close>. An awaited call either resolves with such an answer or rejects
  (network or parse failure) with a thrown value.
\<close>

datatype remote_error = RemoteError (remote_message: string)

datatype 'a response = Response (data: 'a) (supabaseError: "remote_error option")

datatype 'a awaited = Resolved "'a response" | Rejected js_error

datatype user = User string

datatype auth_data = AuthData (user: "user option")

record signUpOptions =
  first_name :: string
  last_name :: string
  full_name :: string
  emailRedirectTo :: string

datatype js_file = File string

datatype 'p request =
    SignInWithPassword string string
  | SignUp string string signUpOptions
  | Select string string
  | Insert string 'p
  | Update string 'p string
  | Upload string js_file "(string \<times> string) list"

datatype route = Push string | Refresh

text \<open>
  Everything a screen acts on outside its own hooks: the remote calls it has issued
  (oldest first), the browser's local storage, the router calls made, the timers set with
  \<open>setTimeout\<close> (delay in milliseconds and the navigation the callback performs), and
  the \<open>alert\<close> boxes shown.
\<close>

record 'p page =
  requests :: "'p request list"
  localStorage :: "string \<Rightarrow> string option"
  routed :: "route list"
  timeouts :: "(nat \<times> route) list"
  alerts :: "string list"

text \<open>
  The hooks every screen declares with \<open>useState\<close>: \<open>loading\<close> and \<open>error\<close>; every
  screen but the login screen also has \<open>success\<close>.
\<close>

record 'p form_screen = "'p page" +
  loading :: bool
  error :: "string option"

record 'p submit_screen = "'p form_screen" +
  success :: bool

section \<open>Schema validation\<close>

text \<open>
  A string field of a schema is a chain of tests, each with its message. The form library
  hands an empty string to the schema as \<open>undefined\<close>, and every test but \<open>required\<close>
  skips an absent value. \<open>field_errors\<close> lists the messages of the failing tests in the
  order of the chain; a field is valid when the list is empty.
\<close>

type_synonym test = "(string \<Rightarrow> bool) \<times> string"

definition required :: "string \<Rightarrow> test" where
  "required msg = (\<lambda>v. v \<noteq> [], msg)"

definition min_length :: "nat \<Rightarrow> string \<Rightarrow> test" where
  "min_length n msg = (\<lambda>v. v = [] \<or> n \<le> length v, msg)"

definition max_length :: "nat \<Rightarrow> string \<Rightarrow> test" where
  "max_length n msg = (\<lambda>v. v = [] \<or> length v \<le> n, msg)"

definition matches :: "(string \<Rightarrow> bool) \<Rightarrow> string \<Rightarrow> test" where
  "matches regex msg = (\<lambda>v. v = [] \<or> regex v, msg)"

definition oneOf :: "string list \<Rightarrow> string \<Rightarrow> test" where
  "oneOf allowed msg = (\<lambda>v. v = [] \<or> v \<in> set allowed, msg)"

definition field_errors :: "test list \<Rightarrow> string \<Rightarrow> string list" where
  "field_errors tests v = map snd (filter (\<lambda>t. \<not> fst t v) tests)"

text \<open>
  The path of a field in the nested values, and the errors object of the form: the fields
  that have a failing test, each with its first message.
\<close>

datatype seg = Key string | Index nat

type_synonym path = "seg list"

definition errors_at :: "path \<Rightarrow> string list \<Rightarrow> (path \<times> string) list" where
  "errors_at p msgs = (case msgs of [] \<Rightarrow> [] | m # _ \<Rightarrow> [(p, m)])"

subsection \<open>The password pattern\<close>

text \<open>
  The registration schema tests the password against
  \<^verbatim>\<open>/^(?=.*[a-z])(?=.*[A-Z])(?=.*\d)/\<close>: three look-aheads at the start of the
  string. \<open>dot_star_then cls s\<close> matches \<^verbatim>\<open>.*[cls]\<close> at the start of \<open>s\<close>:
  either the class matches here, or the dot takes one character, which must not be a line
  terminator, and the match goes on. Of the line terminators of the language, line feed
  and carriage return are the ones below 256.
\<close>

definition lineTerminator :: "char \<Rightarrow> bool" where
  "lineTerminator c = (of_char c = (10::nat) \<or> of_char c = (13::nat))"

definition lower :: "char \<Rightarrow> bool" where
  "lower c = (97 \<le> (of_char c :: nat) \<and> (of_char c :: nat) \<le> 122)"

definition upper :: "char \<Rightarrow> bool" where
  "upper c = (65 \<le> (of_char c :: nat) \<and> (of_char c :: nat) \<le> 90)"

definition digit :: "char \<Rightarrow> bool" where
  "digit c = (48 \<le> (of_char c :: nat) \<and> (of_char c :: nat) \<le> 57)"

fun dot_star_then :: "(char \<Rightarrow> bool) \<Rightarrow> string \<Rightarrow> bool" where
  "dot_star_then cls [] = False"
| "dot_star_then cls (c # cs) = (cls c \<or> (\<not> lineTerminator c \<and> dot_star_then cls cs))"

definition password_pattern :: "string \<Rightarrow> bool" where
  "password_pattern s =
     (dot_star_then lower s \<and> dot_star_then upper s \<and> dot_star_then digit s)"

section \<open>The login screen (AuthLogin)\<close>

record credentials =
  email :: string
  password :: string

record login_values = credentials +
  rememberMe :: bool

type_synonym login_screen = "unit form_screen"

definition login_email_schema :: "(string \<Rightarrow> bool) \<Rightarrow> test list" where
  "login_email_schema emailOk =
     [matches emailOk ''Invalid email address'', required ''Email is required'']"

definition login_password_schema :: "test list" where
  "login_password_schema =
     [min_length 6 ''Password must be at least 6 characters'',
      required ''Password is required'']"

definition login_validationSchema ::
  "(string \<Rightarrow> bool) \<Rightarrow> login_values \<Rightarrow> (path \<times> string) list" where
  "login_validationSchema emailOk values =
     errors_at [Key ''email''] (field_errors (login_email_schema emailOk) (email values)) @
     errors_at [Key ''password''] (field_errors login_password_schema (password values))"

definition login_initialValues :: login_values where
  "login_initialValues = \<lparr>email = [], password = [], rememberMe = True\<rparr>"

text \<open>
  \<open>handleSubmit\<close> runs up to its \<open>await\<close> (\<open>login_handleSubmit_begin\<close>), and goes on when
  the call settles (\<open>login_handleSubmit_settle\<close>): an error object in the answer is thrown
  as \<open>new Error(supabaseError.message)\<close>, the \<open>catch\<close> block sets the message, and the
  \<open>finally\<close> block clears \<open>loading\<close>.
\<close>

definition login_handleSubmit_begin :: "login_values \<Rightarrow> login_screen \<Rightarrow> login_screen" where
  "login_handleSubmit_begin values s =
     s\<lparr>loading := True, error := None,
       requests := requests s @ [SignInWithPassword (email values) (password values)]\<rparr>"

definition login_catch :: "js_error \<Rightarrow> login_screen \<Rightarrow> login_screen" where
  "login_catch err s =
     s\<lparr>error := Some (js_or (message err) ''Login failed. Please check your credentials.''),
       loading := False\<rparr>"

fun login_handleSubmit_settle ::
  "login_values \<Rightarrow> auth_data awaited \<Rightarrow> login_screen \<Rightarrow> login_screen" where
  "login_handleSubmit_settle values (Rejected err) s = login_catch err s"
| "login_handleSubmit_settle values (Resolved (Response d (Some e))) s =
     login_catch (Error (Some (remote_message e))) s"
| "login_handleSubmit_settle values (Resolved (Response d None)) s =
     (case user d of
        Some u \<Rightarrow>
          s\<lparr>localStorage :=
              (if rememberMe values then (localStorage s)(''rememberMe'' \<mapsto> ''true'')
               else (localStorage s)(''rememberMe'' := None)),
            routed := routed s @ [Push ''/dashboard'', Refresh],
            loading := False\<rparr>
      | None \<Rightarrow> s\<lparr>loading := False\<rparr>)"

section \<open>The registration screen (AuthRegistrationForm)\<close>

record register_values = credentials +
  firstName :: string
  lastName :: string
  confirmPassword :: string
  terms :: bool

type_synonym register_screen = "unit submit_screen"

definition register_name_schema :: "string \<Rightarrow> test list" where
  "register_name_schema requiredMsg =
     [min_length 2 ''Too Short!'', max_length 50 ''Too Long!'', required requiredMsg]"

definition register_email_schema :: "(string \<Rightarrow> bool) \<Rightarrow> test list" where
  "register_email_schema emailOk =
     [matches emailOk ''Invalid email address'', required ''Email is required'']"

definition register_password_schema :: "test list" where
  "register_password_schema =
     [min_length 8 ''Password must be at least 8 characters'',
      matches password_pattern
        ''Password must contain at least one uppercase letter, one lowercase letter, and one number'',
      required ''Password is required'']"

definition register_confirmPassword_schema :: "string \<Rightarrow> test list" where
  "register_confirmPassword_schema pw =
     [oneOf [pw] ''Passwords must match'', required ''Confirm password is required'']"

definition register_terms_errors :: "bool \<Rightarrow> string list" where
  "register_terms_errors t =
     (if t then [] else [''You must accept the terms and conditions''])"

definition register_validationSchema ::
  "(string \<Rightarrow> bool) \<Rightarrow> register_values \<Rightarrow> (path \<times> string) list" where
  "register_validationSchema emailOk values =
     errors_at [Key ''firstName'']
       (field_errors (register_name_schema ''First name is required'') (firstName values)) @
     errors_at [Key ''lastName'']
       (field_errors (register_name_schema ''Last name is required'') (lastName values)) @
     errors_at [Key ''email'']
       (field_errors (register_email_schema emailOk) (email values)) @
     errors_at [Key ''password'']
       (field_errors register_password_schema (password values)) @
     errors_at [Key ''confirmPassword'']
       (field_errors (register_confirmPassword_schema (password values))
          (confirmPassword values)) @
     errors_at [Key ''terms''] (register_terms_errors (terms values))"

text \<open>
  The sign-up request; \<open>siteUrl\<close> is the environment variable \<open>NEXT_PUBLIC_SITE_URL\<close>,
  which may be unset.
\<close>

definition register_request :: "string option \<Rightarrow> register_values \<Rightarrow> unit request" where
  "register_request siteUrl values =
     SignUp (email values) (password values)
       \<lparr>first_name = firstName values,
        last_name = lastName values,
        full_name = firstName values @ '' '' @ lastName values,
        emailRedirectTo = template siteUrl @ ''/authentication/login''\<rparr>"

definition register_handleSubmit_begin ::
  "string option \<Rightarrow> register_values \<Rightarrow> register_screen \<Rightarrow> register_screen" where
  "register_handleSubmit_begin siteUrl values s =
     s\<lparr>loading := True, error := None, success := False,
       requests := requests s @ [register_request siteUrl values]\<rparr>"

definition register_catch :: "js_error \<Rightarrow> register_screen \<Rightarrow> register_screen" where
  "register_catch err s =
     s\<lparr>error := Some (js_or (message err) ''Registration failed. Please try again.''),
       loading := False\<rparr>"

fun register_handleSubmit_settle ::
  "register_values \<Rightarrow> auth_data awaited \<Rightarrow> register_screen \<Rightarrow> register_screen" where
  "register_handleSubmit_settle values (Rejected err) s = register_catch err s"
| "register_handleSubmit_settle values (Resolved (Response d (Some e))) s =
     register_catch (Error (Some (remote_message e))) s"
| "register_handleSubmit_settle values (Resolved (Response d None)) s =
     (case user d of
        Some u \<Rightarrow>
          s\<lparr>success := True,
            timeouts := timeouts s @ [(3000, Push ''/authentication/login'')],
            loading := False\<rparr>
      | None \<Rightarrow> s\<lparr>loading := False\<rparr>)"

section \<open>The form library's submit\<close>

text \<open>
  Pressing the submit button of a form: a disabled button does nothing; otherwise the
  values are validated against the schema and the screen's \<open>onSubmit\<close> handler runs only
  when no field has an error. The result is the errors object and the screen.
\<close>

definition press_submit ::
  "('s \<Rightarrow> bool) \<Rightarrow> ('v \<Rightarrow> (path \<times> string) list) \<Rightarrow> ('v \<Rightarrow> 's \<Rightarrow> 's) \<Rightarrow> 'v \<Rightarrow> 's
     \<Rightarrow> (path \<times> string) list \<times> 's" where
  "press_submit disabled validationSchema onSubmit values s =
     (if disabled s then ([], s)
      else if validationSchema values = [] then ([], onSubmit values s)
      else (validationSchema values, s))"

text \<open>Every screen passes \<open>disabled={loading}\<close> to its submit button.\<close>

definition submitDisabled :: "('p, 'a) form_screen_scheme \<Rightarrow> bool" where
  "submitDisabled s = loading s"

section \<open>Blog and SEO-banner records\<close>

text \<open>
  The nested values of the blog and SEO-banner forms. Each object is one record, used at
  two types: with \<open>string\<close> leaves for the values of a form, and with optional leaves and
  optional sub-objects for a row fetched from the remote collection, where any field may
  be missing or null. A leaf of a row, when present, is a string. A sub-object that holds
  a value of another kind reads like one without fields, so it is covered by the record
  with all fields missing; likewise a list item that is not an object. A list item may
  carry a numeric \<open>id\<close>.
\<close>

record 'a openGraph =
  og_title :: 'a
  og_description :: 'a
  og_url :: 'a
  og_type :: 'a
  og_image :: 'a

record ('a, 'g) seo =
  seo_title :: 'a
  seo_description :: 'a
  seo_keywords :: 'a
  seo_metaRobots :: 'a
  seo_metaViewport :: 'a
  seo_canonicalURL :: 'a
  seo_openGraph :: 'g

record 'a banner =
  banner_title :: 'a
  banner_description :: 'a
  banner_videoUrl :: 'a

record 'a poster_banner = "'a banner" +
  banner_poster :: 'a

record 'a cta =
  cta_slug :: 'a
  cta_text :: 'a

record 'a text_item =
  item_text :: 'a
  item_id :: "int option"

record 'a link =
  link_text :: 'a
  link_href :: 'a
  link_id :: "int option"

record ('a, 'l) tags =
  tags_list :: 'l
  tags_text :: 'a

record ('a, 'l) urls =
  urls_list :: 'l
  urls_text :: 'a

record ('a, 'c, 'd, 't, 'u) content =
  content_cta :: 'c
  content_title :: 'a
  content_thumbImage :: 'a
  content_createdDate :: 'a
  content_description :: 'd
  content_tags :: 't
  content_urls :: 'u

record ('s, 'b) seoBanner =
  seo :: 's
  banner :: 'b

record ('s, 'b, 'c) blog = "('s, 'b) seoBanner" +
  content :: 'c

text \<open>
  The value of a list field in a fetched row: an array, whose items may be \<open>null\<close>, or a
  value that is not an array (a string, a number, an object), of which the code reads the
  \<open>length\<close> only; the flag says whether that \<open>length\<close> is truthy, as it is for a string
  that is not empty.
\<close>

datatype 'i list_value = JsArray "'i option list" | NotArray bool

type_synonym form_seo = "(string, string openGraph) seo"

type_synonym form_content =
  "(string, string cta, string text_item list,
    (string, string text_item list) tags, (string, string link list) urls) content"

type_synonym blog_values = "(form_seo, string banner, form_content) blog"

type_synonym seoBanner_values = "(form_seo, string poster_banner) seoBanner"





text \<open>
  The initial values of the forms; \<open>today\<close> is
  \<^verbatim>\<open>new Date().toISOString().split('T')[0]\<close>.
\<close>

definition initial_seo :: form_seo where
  "initial_seo =
     \<lparr>seo_title = [], seo_description = [], seo_keywords = [],
      seo_metaRobots = ''index, follow'',
      seo_metaViewport = ''width=device-width, initial-scale=1'',
      seo_canonicalURL = [],
      seo_openGraph =
        \<lparr>og_title = [], og_description = [], og_url = [], og_type = ''website'',
         og_image = []\<rparr>\<rparr>"

definition blog_initialValues :: "string \<Rightarrow> blog_values" where
  "blog_initialValues today =
     \<lparr>seo = initial_seo,
      banner = \<lparr>banner_title = [], banner_description = [], banner_videoUrl = []\<rparr>,
      content =
        \<lparr>content_cta = \<lparr>cta_slug = [], cta_text = []\<rparr>,
         content_title = [],
         content_thumbImage = [],
         content_createdDate = today,
         content_description = [\<lparr>item_text = [], item_id = None\<rparr>],
         content_tags =
           \<lparr>tags_list = [\<lparr>item_text = [], item_id = None\<rparr>], tags_text = ''Tags''\<rparr>,
         content_urls =
           \<lparr>urls_list = [\<lparr>link_text = [], link_href = [], link_id = None\<rparr>],
            urls_text = ''Urls''\<rparr>\<rparr>\<rparr>"

definition seoBanner_initialValues :: seoBanner_values where
  "seoBanner_initialValues =
     \<lparr>seo = initial_seo,
      banner =
        \<lparr>banner_title = [], banner_description = [], banner_videoUrl = [],
         banner_poster = []\<rparr>\<rparr>"

section \<open>The blog and SEO-banner schemas\<close>

text \<open>
  \<open>urlOk\<close> is the schema library's URL test. The SEO block is the same in the four
  schemas; \<open>metaRobots\<close>, \<open>metaViewport\<close> and the Open-Graph \<open>type\<close> have no test.
\<close>

definition required_text :: "test list" where
  "required_text = [required ''Required'']"

definition required_url :: "(string \<Rightarrow> bool) \<Rightarrow> test list" where
  "required_url urlOk = [matches urlOk ''Must be a valid URL'', required ''Required'']"

definition seo_schema :: "(string \<Rightarrow> bool) \<Rightarrow> form_seo \<Rightarrow> (path \<times> string) list" where
  "seo_schema urlOk s =
     errors_at [Key ''seo'', Key ''title''] (field_errors required_text (seo_title s)) @
     errors_at [Key ''seo'', Key ''description'']
       (field_errors required_text (seo_description s)) @
     errors_at [Key ''seo'', Key ''keywords''] (field_errors required_text (seo_keywords s)) @
     errors_at [Key ''seo'', Key ''canonicalURL'']
       (field_errors (required_url urlOk) (seo_canonicalURL s)) @
     errors_at [Key ''seo'', Key ''openGraph'', Key ''title'']
       (field_errors required_text (og_title (seo_openGraph s))) @
     errors_at [Key ''seo'', Key ''openGraph'', Key ''description'']
       (field_errors required_text (og_description (seo_openGraph s))) @
     errors_at [Key ''seo'', Key ''openGraph'', Key ''url'']
       (field_errors (required_url urlOk) (og_url (seo_openGraph s))) @
     errors_at [Key ''seo'', Key ''openGraph'', Key ''image'']
       (field_errors (required_url urlOk) (og_image (seo_openGraph s)))"

definition banner_schema ::
  "(string \<Rightarrow> bool) \<Rightarrow> (string, 'z) banner_scheme \<Rightarrow> (path \<times> string) list" where
  "banner_schema urlOk b =
     errors_at [Key ''banner'', Key ''title''] (field_errors required_text (banner_title b)) @
     errors_at [Key ''banner'', Key ''description'']
       (field_errors required_text (banner_description b)) @
     errors_at [Key ''banner'', Key ''videoUrl'']
       (field_errors (required_url urlOk) (banner_videoUrl b))"

text \<open>
  An array schema \<open>array().of(...).min(1, msg)\<close>: the errors of every item at its index,
  and the message of \<open>min\<close> at the array itself when it is empty.
\<close>

definition array_schema ::
  "path \<Rightarrow> string \<Rightarrow> (path \<Rightarrow> 'i \<Rightarrow> (path \<times> string) list) \<Rightarrow> 'i list
     \<Rightarrow> (path \<times> string) list" where
  "array_schema p minMsg item xs =
     concat (map (\<lambda>(i, x). item (p @ [Index i]) x) (enumerate 0 xs)) @
     (if length xs < 1 then [(p, minMsg)] else [])"

definition text_item_schema :: "string \<Rightarrow> path \<Rightarrow> string text_item \<Rightarrow> (path \<times> string) list" where
  "text_item_schema msg p x =
     errors_at (p @ [Key ''text'']) (field_errors [required msg] (item_text x))"

definition link_schema ::
  "(string \<Rightarrow> bool) \<Rightarrow> path \<Rightarrow> string link \<Rightarrow> (path \<times> string) list" where
  "link_schema urlOk p x =
     errors_at (p @ [Key ''text''])
       (field_errors [required ''Link text is required''] (link_text x)) @
     errors_at (p @ [Key ''href''])
       (field_errors [matches urlOk ''Must be a valid URL'', required ''URL is required'']
          (link_href x))"

definition content_schema ::
  "(string \<Rightarrow> bool) \<Rightarrow> form_content \<Rightarrow> (path \<times> string) list" where
  "content_schema urlOk c =
     errors_at [Key ''content'', Key ''title'']
       (field_errors required_text (content_title c)) @
     errors_at [Key ''content'', Key ''createdDate'']
       (field_errors required_text (content_createdDate c)) @
     errors_at [Key ''content'', Key ''cta'', Key ''slug'']
       (field_errors required_text (cta_slug (content_cta c))) @
     errors_at [Key ''content'', Key ''cta'', Key ''text'']
       (field_errors required_text (cta_text (content_cta c))) @
     array_schema [Key ''content'', Key ''description'']
       ''At least one description paragraph is required''
       (text_item_schema ''Required'') (content_description c) @
     array_schema [Key ''content'', Key ''tags'', Key ''list'']
       ''At least one tag is required''
       (text_item_schema ''Tag is required'') (tags_list (content_tags c)) @
     array_schema [Key ''content'', Key ''urls'', Key ''list'']
       ''At least one URL is required''
       (link_schema urlOk) (urls_list (content_urls c)) @
     errors_at [Key ''content'', Key ''thumbImage'']
       (field_errors [matches urlOk ''Must be a valid URL''] (content_thumbImage c))"

definition blog_validationSchema ::
  "(string \<Rightarrow> bool) \<Rightarrow> blog_values \<Rightarrow> (path \<times> string) list" where
  "blog_validationSchema urlOk values =
     seo_schema urlOk (seo values) @ banner_schema urlOk (banner values) @
     content_schema urlOk (content values)"

definition seoBanner_validationSchema ::
  "(string \<Rightarrow> bool) \<Rightarrow> seoBanner_values \<Rightarrow> (path \<times> string) list" where
  "seoBanner_validationSchema urlOk values =
     seo_schema urlOk (seo values) @ banner_schema urlOk (banner values) @
     errors_at [Key ''banner'', Key ''poster'']
       (field_errors (required_url urlOk) (banner_poster (banner values)))"

section \<open>The create screens (CreateBlogForm, CreateSEOBannersForm)\<close>

text \<open>
  Both \<open>handleSubmit\<close> functions have the same text, up to the collection and the fallback
  message: the values are sent to \<open>insert\<close>, an error object in the answer is thrown as
  \<open>new Error(supabaseError.message)\<close>, and any answer without one is a success.
\<close>

definition insert_handleSubmit_begin ::
  "string \<Rightarrow> 'p \<Rightarrow> ('p, 'z) submit_screen_scheme \<Rightarrow> ('p, 'z) submit_screen_scheme" where
  "insert_handleSubmit_begin table values s =
     s\<lparr>loading := True, error := None, success := False,
       requests := requests s @ [Insert table values]\<rparr>"

definition submit_catch ::
  "string \<Rightarrow> js_error \<Rightarrow> ('p, 'z) submit_screen_scheme \<Rightarrow> ('p, 'z) submit_screen_scheme" where
  "submit_catch fallback err s =
     s\<lparr>error := Some (js_or (message err) fallback), loading := False\<rparr>"

fun submit_settle ::
  "string \<Rightarrow> 'd awaited \<Rightarrow> ('p, 'z) submit_screen_scheme \<Rightarrow> ('p, 'z) submit_screen_scheme" where
  "submit_settle fallback (Rejected err) s = submit_catch fallback err s"
| "submit_settle fallback (Resolved (Response d (Some e))) s =
     submit_catch fallback (Error (Some (remote_message e))) s"
| "submit_settle fallback (Resolved (Response d None)) s =
     s\<lparr>success := True, loading := False\<rparr>"

definition createBlog_handleSubmit_begin ::
  "blog_values \<Rightarrow> blog_values submit_screen \<Rightarrow> blog_values submit_screen" where
  "createBlog_handleSubmit_begin = insert_handleSubmit_begin ''blogs''"

definition createBlog_handleSubmit_settle ::
  "'d awaited \<Rightarrow> blog_values submit_screen \<Rightarrow> blog_values submit_screen" where
  "createBlog_handleSubmit_settle = submit_settle ''Failed to create blog''"

subsection \<open>File upload (uploadToCloudinary, FileUploadField)\<close>

datatype media = MediaImage | MediaVideo

record cloudinary =
  CLOUDINARY_CLOUD_NAME :: "string option"
  CLOUDINARY_UPLOAD_PRESET :: "string option"

definition falsy :: "string option \<Rightarrow> bool" where
  "falsy x = (case x of None \<Rightarrow> True | Some s \<Rightarrow> s = [])"

definition media_name :: "media \<Rightarrow> string" where
  "media_name t = (case t of MediaImage \<Rightarrow> ''image'' | MediaVideo \<Rightarrow> ''video'')"

text \<open>
  \<open>uploadToCloudinary\<close> up to its \<open>fetch\<close>: without the configuration it throws before
  any request; otherwise it posts the file, the preset and the folder, and for a video the
  resource type.
\<close>

definition uploadToCloudinary_request ::
  "cloudinary \<Rightarrow> string \<Rightarrow> js_file \<Rightarrow> media \<Rightarrow> js_error + 'p request" where
  "uploadToCloudinary_request env folder f t =
     (if falsy (CLOUDINARY_CLOUD_NAME env) \<or> falsy (CLOUDINARY_UPLOAD_PRESET env)
      then Inl (Error (Some
        ''Cloudinary configuration is missing. Please check your environment variables.''))
      else Inr (Upload
        (''https://api.cloudinary.com/v1_1/'' @ template (CLOUDINARY_CLOUD_NAME env) @ ''/'' @
           media_name t @ ''/upload'')
        f
        ([(''upload_preset'', template (CLOUDINARY_UPLOAD_PRESET env)), (''folder'', folder)] @
         (case t of MediaImage \<Rightarrow> [] | MediaVideo \<Rightarrow> [(''resource_type'', ''video'')]))))"

text \<open>
  What the \<open>fetch\<close> gives: a rejection, a response that is not ok (its status as printed
  and its body text), or an ok response whose JSON body has the given \<open>secure_url\<close>.
\<close>

datatype fetched = FetchRejected js_error | NotOk string string | Ok string

definition uploadToCloudinary ::
  "cloudinary \<Rightarrow> string \<Rightarrow> js_file \<Rightarrow> media \<Rightarrow> fetched \<Rightarrow> js_error + string" where
  "uploadToCloudinary env folder f t r =
     (case (uploadToCloudinary_request env folder f t :: js_error + unit request) of
        Inl err \<Rightarrow> Inl err
      | Inr q \<Rightarrow>
          (case r of
             FetchRejected err \<Rightarrow> Inl err
           | NotOk status errorText \<Rightarrow>
               Inl (Error (Some (''Cloudinary upload failed: '' @ status @ '' '' @ errorText)))
           | Ok secure_url \<Rightarrow> Inr secure_url))"

text \<open>
  The create screen for SEO banners holds three \<open>FileUploadField\<close>s. Each has its own
  \<open>localUploading\<close> hook; the screen has the set \<open>uploadingFields\<close>; \<open>formValues\<close> are the
  current values of the form. The screen's own \<open>handleFileUpload\<close>, the only function
  that writes \<open>uploadingFields\<close>, is never called, so the set stays as it is. The update
  screen for SEO banners uses the same component with the folder \<open>seo_banners\<close>.
\<close>

datatype upload_field = OG_Image | Video_URL | Poster_Image

definition field_name :: "upload_field \<Rightarrow> string" where
  "field_name f =
     (case f of OG_Image \<Rightarrow> ''seo.openGraph.image'' | Video_URL \<Rightarrow> ''banner.videoUrl''
      | Poster_Image \<Rightarrow> ''banner.poster'')"

definition field_type :: "upload_field \<Rightarrow> media" where
  "field_type f = (case f of OG_Image \<Rightarrow> MediaImage | Video_URL \<Rightarrow> MediaVideo
      | Poster_Image \<Rightarrow> MediaImage)"

record createSEOBanners_screen = "seoBanner_values submit_screen" +
  uploadingFields :: "string set"
  localUploading :: "upload_field \<Rightarrow> bool"
  formValues :: seoBanner_values

text \<open>The \<open>onUpload\<close> property of each field: \<open>setFieldValue\<close> at the field's path.\<close>

definition onUpload :: "upload_field \<Rightarrow> string \<Rightarrow> seoBanner_values \<Rightarrow> seoBanner_values" where
  "onUpload f url values =
     (case f of
        OG_Image \<Rightarrow>
          values\<lparr>seo := (seo values)\<lparr>seo_openGraph :=
            (seo_openGraph (seo values))\<lparr>og_image := url\<rparr>\<rparr>\<rparr>
      | Video_URL \<Rightarrow> values\<lparr>banner := (banner values)\<lparr>banner_videoUrl := url\<rparr>\<rparr>
      | Poster_Image \<Rightarrow> values\<lparr>banner := (banner values)\<lparr>banner_poster := url\<rparr>\<rparr>)"

definition isUploading :: "upload_field \<Rightarrow> createSEOBanners_screen \<Rightarrow> bool" where
  "isUploading f s = (field_name f \<in> uploadingFields s \<or> localUploading s f)"

text \<open>
  \<open>handleFileUpload\<close> of a field: nothing happens without a file; otherwise
  \<open>localUploading\<close> is set and the upload starts. When it settles, the URL goes to
  \<open>onUpload\<close>, or an alert is shown, and \<open>localUploading\<close> is cleared.
\<close>

definition handleFileUpload_begin ::
  "cloudinary \<Rightarrow> upload_field \<Rightarrow> js_file option \<Rightarrow> createSEOBanners_screen
     \<Rightarrow> createSEOBanners_screen" where
  "handleFileUpload_begin env f selected s =
     (case selected of
        None \<Rightarrow> s
      | Some fl \<Rightarrow>
          s\<lparr>localUploading := (localUploading s)(f := True),
            requests := requests s @
              (case uploadToCloudinary_request env ''blogs'' fl (field_type f) of
                 Inl err \<Rightarrow> [] | Inr q \<Rightarrow> [q])\<rparr>)"

definition handleFileUpload_settle ::
  "upload_field \<Rightarrow> js_error + string \<Rightarrow> createSEOBanners_screen \<Rightarrow> createSEOBanners_screen" where
  "handleFileUpload_settle f outcome s =
     (case outcome of
        Inr url \<Rightarrow>
          s\<lparr>formValues := onUpload f url (formValues s),
            localUploading := (localUploading s)(f := False)\<rparr>
      | Inl err \<Rightarrow>
          s\<lparr>alerts := alerts s @ [''Failed to upload '' @ media_name (field_type f) @
              ''. Please try again.''],
            localUploading := (localUploading s)(f := False)\<rparr>)"

text \<open>
  The file input of a field is disabled while the screen is loading or the field is
  uploading; selecting a file in an enabled input runs \<open>handleFileUpload\<close>.
\<close>

definition select_file ::
  "cloudinary \<Rightarrow> upload_field \<Rightarrow> js_file option \<Rightarrow> createSEOBanners_screen
     \<Rightarrow> createSEOBanners_screen" where
  "select_file env f selected s =
     (if loading s \<or> isUploading f s then s else handleFileUpload_begin env f selected s)"

definition createSEOBanners_handleSubmit_begin ::
  "seoBanner_values \<Rightarrow> createSEOBanners_screen \<Rightarrow> createSEOBanners_screen" where
  "createSEOBanners_handleSubmit_begin = insert_handleSubmit_begin ''seo_banners''"

definition createSEOBanners_handleSubmit_settle ::
  "'d awaited \<Rightarrow> createSEOBanners_screen \<Rightarrow> createSEOBanners_screen" where
  "createSEOBanners_handleSubmit_settle = submit_settle ''Failed to create SEO Banner''"

section \<open>The update screens (UpdateBlogForm, UpdateSEOBannersForm)\<close>

record 'p update_screen = "'p submit_screen" +
  fetching :: bool
  initialValues :: 'p

subsection \<open>Hydration\<close>





text \<open>
  A list is hydrated by \<^verbatim>\<open>x?.length ? x.map(item => ...) : [blank]\<close>. The callback
  reads \<open>item.text\<close> with no check of \<open>item\<close>, so it throws a TypeError at the first
  \<open>null\<close> item; and a value that is not an array but has a truthy \<open>length\<close> has no
  \<open>map\<close> to call. The messages of the two TypeErrors are the JavaScript engine's; the
  ones of V8 are used here. The whole transform runs inside the \<open>try\<close> block of the fetch.
\<close>

definition null_item_error :: js_error where
  "null_item_error = Error (Some ''Cannot read properties of null'')"

definition no_map_error :: js_error where
  "no_map_error = Error (Some ''map is not a function'')"

fun map_items :: "('a \<Rightarrow> 'b) \<Rightarrow> 'a option list \<Rightarrow> js_error + 'b list" where
  "map_items f [] = Inr []"
| "map_items f (None # xs) = Inl null_item_error"
| "map_items f (Some x # xs) =
     (case map_items f xs of Inl err \<Rightarrow> Inl err | Inr ys \<Rightarrow> Inr (f x # ys))"

definition transformed_list ::
  "('a \<Rightarrow> 'b) \<Rightarrow> 'b \<Rightarrow> 'a list_value option \<Rightarrow> js_error + 'b list" where
  "transformed_list f blank xs =
     (case xs of
        None \<Rightarrow> Inr [blank]
      | Some (NotArray truthyLength) \<Rightarrow> if truthyLength then Inl no_map_error else Inr [blank]
      | Some (JsArray []) \<Rightarrow> Inr [blank]
      | Some (JsArray (y # ys)) \<Rightarrow> map_items f (y # ys))"




subsection \<open>Fetching the record\<close>






text \<open>The hooks of an update screen at mount.\<close>

definition update_mount :: "'p \<Rightarrow> 'p update_screen" where
  "update_mount emptyInitialValues =
     \<lparr>requests = [], localStorage = Map.empty, routed = [], timeouts = [], alerts = [],
      loading = False, error = None, success = False,
      fetching = True, initialValues = emptyInitialValues\<rparr>"

subsection \<open>Rendering\<close>

text \<open>
  While \<open>fetching\<close> the component returns the loading indicator. Otherwise it returns the
  form, initialised from \<open>initialValues\<close>, with the success and error alerts inside it and
  the submit button disabled while \<open>loading\<close>.
\<close>

datatype 'p view =
    LoadingIndicator
  | EditableForm (formInitialValues: 'p) (successAlert: bool) (errorAlert: "string option")
      (submitButtonDisabled: bool)


subsection \<open>Submitting\<close>

text \<open>
  \<open>handleSubmit\<close> of an update screen: without an identifier it sets an error and returns
  with no remote call; otherwise it proceeds as on the create screens, with \<open>update\<close> by
  identifier, and the same \<open>catch\<close> and \<open>finally\<close> blocks.
\<close>

definition update_handleSubmit_begin ::
  "string \<Rightarrow> string \<Rightarrow> string option \<Rightarrow> 'p \<Rightarrow> 'p update_screen \<Rightarrow> 'p update_screen" where
  "update_handleSubmit_begin table missing ident values s =
     (if falsy ident then s\<lparr>error := Some missing\<rparr>
      else s\<lparr>loading := True, error := None, success := False,
             requests := requests s @ [Update table values (template ident)]\<rparr>)"

definition updateBlog_handleSubmit_begin ::
  "string option \<Rightarrow> blog_values \<Rightarrow> blog_values update_screen \<Rightarrow> blog_values update_screen" where
  "updateBlog_handleSubmit_begin = update_handleSubmit_begin ''blogs'' ''Blog ID is missing''"

definition updateBlog_handleSubmit_settle ::
  "'d awaited \<Rightarrow> blog_values update_screen \<Rightarrow> blog_values update_screen" where
  "updateBlog_handleSubmit_settle = submit_settle ''Failed to update blog''"

definition updateSEOBanners_handleSubmit_begin ::
  "string option \<Rightarrow> seoBanner_values \<Rightarrow> seoBanner_values update_screen
     \<Rightarrow> seoBanner_values update_screen" where
  "updateSEOBanners_handleSubmit_begin =
     update_handleSubmit_begin ''seo_banners'' ''SEO Banner ID is missing''"

definition updateSEOBanners_handleSubmit_settle ::
  "'d awaited \<Rightarrow> seoBanner_values update_screen \<Rightarrow> seoBanner_values update_screen" where
  "updateSEOBanners_handleSubmit_settle = submit_settle ''Failed to update SEO Banner''"









section \<open>The submit life cycle\<close>

text \<open>
  The specification's SubmissionStatus, read off the hooks: \<open>submitting\<close> while
  \<open>loading\<close>, else \<open>failed\<close> with the message in \<open>error\<close>, else \<open>succeeded\<close> when
  \<open>success\<close> is set, else \<open>idle\<close>. The login screen has no \<open>success\<close> hook.
\<close>

datatype submission_status = Idle | Submitting | Succeeded | Failed string

definition login_submissionStatus :: "login_screen \<Rightarrow> submission_status" where
  "login_submissionStatus s =
     (if loading s then Submitting
      else case error s of Some m \<Rightarrow> Failed m | None \<Rightarrow> Idle)"

definition submissionStatus :: "('p, 'z) submit_screen_scheme \<Rightarrow> submission_status" where
  "submissionStatus s =
     (if loading s then Submitting
      else case error s of Some m \<Rightarrow> Failed m
           | None \<Rightarrow> if success s then Succeeded else Idle)"

text \<open>
  A remote call of a submit has failed when it rejected or answered with an error object;
  \<open>provided_message\<close> is the message that came with the failure, if any.
\<close>

fun failed_call :: "'d awaited \<Rightarrow> bool" where
  "failed_call (Rejected err) = True"
| "failed_call (Resolved (Response d e)) = (e \<noteq> None)"

fun provided_message :: "'d awaited \<Rightarrow> string option" where
  "provided_message (Rejected err) = message err"
| "provided_message (Resolved (Response d e)) = map_option remote_message e"

text \<open>
  The events of a form: the user presses the submit button with the current values, the
  remote call of a suspended \<open>handleSubmit\<close> settles, or the component renders again.
  The button on the page has the \<open>disabled\<close> property of the last render, which is the
  value \<open>loading\<close> had then; \<open>setLoading\<close> changes the hook at once and the button
  only at the next render. A state of the life cycle is the screen, whether the button on
  the page is disabled, and the values of the handlers suspended at their \<open>await\<close>,
  oldest first; a press suspends a handler exactly when it has issued a remote call.
\<close>

datatype ('v, 'r) event = Press 'v | Settle 'r | Render

fun step ::
  "('v \<Rightarrow> (path \<times> string) list) \<Rightarrow>
   ('v \<Rightarrow> ('p, 'z) form_screen_scheme \<Rightarrow> ('p, 'z) form_screen_scheme) \<Rightarrow>
   ('v \<Rightarrow> 'r \<Rightarrow> ('p, 'z) form_screen_scheme \<Rightarrow> ('p, 'z) form_screen_scheme) \<Rightarrow>
   ('v, 'r) event \<Rightarrow> ('p, 'z) form_screen_scheme \<times> bool \<times> 'v list \<Rightarrow>
   ('p, 'z) form_screen_scheme \<times> bool \<times> 'v list" where
  "step validationSchema onSubmit settle (Press v) (s, buttonDisabled, suspended) =
     (let s' = snd (press_submit (\<lambda>s. buttonDisabled) validationSchema onSubmit v s)
      in (s', buttonDisabled,
          if length (requests s) < length (requests s') then suspended @ [v] else suspended))"
| "step validationSchema onSubmit settle (Settle r) (s, buttonDisabled, suspended) =
     (case suspended of
        [] \<Rightarrow> (s, buttonDisabled, [])
      | v # vs \<Rightarrow> (settle v r s, buttonDisabled, vs))"
| "step validationSchema onSubmit settle Render (s, buttonDisabled, suspended) =
     (s, submitDisabled s, suspended)"

definition run ::
  "('v \<Rightarrow> (path \<times> string) list) \<Rightarrow>
   ('v \<Rightarrow> ('p, 'z) form_screen_scheme \<Rightarrow> ('p, 'z) form_screen_scheme) \<Rightarrow>
   ('v \<Rightarrow> 'r \<Rightarrow> ('p, 'z) form_screen_scheme \<Rightarrow> ('p, 'z) form_screen_scheme) \<Rightarrow>
   ('v, 'r) event list \<Rightarrow> ('p, 'z) form_screen_scheme \<times> bool \<times> 'v list \<Rightarrow>
   ('p, 'z) form_screen_scheme \<times> bool \<times> 'v list" where
  "run validationSchema onSubmit settle evs st =
     foldl (\<lambda>st ev. step validationSchema onSubmit settle ev st) st evs"




definition register_run ::
  "(string \<Rightarrow> bool) \<Rightarrow> string option \<Rightarrow> (register_values, auth_data awaited) event list
     \<Rightarrow> register_screen \<times> bool \<times> register_values list
     \<Rightarrow> register_screen \<times> bool \<times> register_values list" where
  "register_run emailOk siteUrl =
     run (register_validationSchema emailOk) (register_handleSubmit_begin siteUrl)
       register_handleSubmit_settle"





text \<open>The registration screen at mount, and what it renders.\<close>

definition register_mount :: register_screen where
  "register_mount =
     \<lparr>requests = [], localStorage = Map.empty, routed = [], timeouts = [], alerts = [],
      loading = False, error = None, success = False\<rparr>"

definition register_initialValues :: register_values where
  "register_initialValues =
     \<lparr>email = [], password = [], firstName = [], lastName = [], confirmPassword = [],
      terms = False\<rparr>"

definition register_render :: "register_screen \<Rightarrow> register_values view" where
  "register_render s = EditableForm register_initialValues (success s) (error s) (loading s)"

text \<open>The other screens at mount.\<close>

definition login_mount :: login_screen where
  "login_mount =
     \<lparr>requests = [], localStorage = Map.empty, routed = [], timeouts = [], alerts = [],
      loading = False, error = None\<rparr>"

definition createBlog_mount :: "blog_values submit_screen" where
  "createBlog_mount =
     \<lparr>requests = [], localStorage = Map.empty, routed = [], timeouts = [], alerts = [],
      loading = False, error = None, success = False\<rparr>"

definition createSEOBanners_mount :: createSEOBanners_screen where
  "createSEOBanners_mount =
     \<lparr>requests = [], localStorage = Map.empty, routed = [], timeouts = [], alerts = [],
      loading = False, error = None, success = False,
      uploadingFields = {}, localUploading = (\<lambda>f. False),
      formValues = seoBanner_initialValues\<rparr>"

text \<open>
  Pressing the submit button of each form on a page that shows the current \<open>loading\<close>.
\<close>

definition login_press ::
  "(string \<Rightarrow> bool) \<Rightarrow> login_values \<Rightarrow> login_screen \<Rightarrow> (path \<times> string) list \<times> login_screen" where
  "login_press emailOk =
     press_submit submitDisabled (login_validationSchema emailOk) login_handleSubmit_begin"

definition register_press ::
  "(string \<Rightarrow> bool) \<Rightarrow> string option \<Rightarrow> register_values \<Rightarrow> register_screen
     \<Rightarrow> (path \<times> string) list \<times> register_screen" where
  "register_press emailOk siteUrl =
     press_submit submitDisabled (register_validationSchema emailOk)
       (register_handleSubmit_begin siteUrl)"

definition createBlog_press ::
  "(string \<Rightarrow> bool) \<Rightarrow> blog_values \<Rightarrow> blog_values submit_screen
     \<Rightarrow> (path \<times> string) list \<times> blog_values submit_screen" where
  "createBlog_press urlOk =
     press_submit submitDisabled (blog_validationSchema urlOk) createBlog_handleSubmit_begin"

definition createSEOBanners_press ::
  "(string \<Rightarrow> bool) \<Rightarrow> seoBanner_values \<Rightarrow> createSEOBanners_screen
     \<Rightarrow> (path \<times> string) list \<times> createSEOBanners_screen" where
  "createSEOBanners_press urlOk =
     press_submit submitDisabled (seoBanner_validationSchema urlOk)
       createSEOBanners_handleSubmit_begin"

definition updateBlog_press ::
  "(string \<Rightarrow> bool) \<Rightarrow> string option \<Rightarrow> blog_values \<Rightarrow> blog_values update_screen
     \<Rightarrow> (path \<times> string) list \<times> blog_values update_screen" where
  "updateBlog_press urlOk ident =
     press_submit submitDisabled (blog_validationSchema urlOk)
       (updateBlog_handleSubmit_begin ident)"

definition updateSEOBanners_press ::
  "(string \<Rightarrow> bool) \<Rightarrow> string option \<Rightarrow> seoBanner_values \<Rightarrow> seoBanner_values update_screen
     \<Rightarrow> (path \<times> string) list \<times> seoBanner_values update_screen" where
  "updateSEOBanners_press urlOk ident =
     press_submit submitDisabled (seoBanner_validationSchema urlOk)
       (updateSEOBanners_handleSubmit_begin ident)"

section \<open>Sample inputs\<close>

text \<open>The registration input of scenario A.\<close>

definition scenarioA_values :: register_values where
  "scenarioA_values =
     \<lparr>email = ''jo@x.com'', password = ''Passw0rd'', firstName = ''Jo'', lastName = ''Ng'',
      confirmPassword = ''Passw0rd'', terms = True\<rparr>"


text \<open>A blog with every field filled in, and the same blog with an empty \<open>metaRobots\<close>.\<close>

definition sample_blog :: blog_values where
  "sample_blog =
     \<lparr>seo =
        \<lparr>seo_title = ''T'', seo_description = ''D'', seo_keywords = ''k'',
         seo_metaRobots = ''noindex'',
         seo_metaViewport = ''width=device-width'',
         seo_canonicalURL = ''https://x.com/a'',
         seo_openGraph =
           \<lparr>og_title = ''T'', og_description = ''D'', og_url = ''https://x.com/a'',
            og_type = ''article'', og_image = ''https://x.com/a.png''\<rparr>\<rparr>,
      banner =
        \<lparr>banner_title = ''B'', banner_description = ''D'',
         banner_videoUrl = ''https://x.com/v.mp4''\<rparr>,
      content =
        \<lparr>content_cta = \<lparr>cta_slug = ''/blogs/a'', cta_text = ''Read more''\<rparr>,
         content_title = ''A'',
         content_thumbImage = [],
         content_createdDate = ''2024-01-01'',
         content_description = [\<lparr>item_text = ''p'', item_id = Some 1\<rparr>],
         content_tags = \<lparr>tags_list = [\<lparr>item_text = ''t'', item_id = None\<rparr>], tags_text = ''Tags''\<rparr>,
         content_urls =
           \<lparr>urls_list = [\<lparr>link_text = ''l'', link_href = ''https://x.com'', link_id = None\<rparr>],
            urls_text = ''Urls''\<rparr>\<rparr>\<rparr>"


text \<open>Library tests that accept every string, for the sample runs.\<close>

definition accept_all :: "string \<Rightarrow> bool" where
  "accept_all u = True"

text \<open>A Cloudinary configuration with both variables set.\<close>

definition sample_cloudinary :: cloudinary where
  "sample_cloudinary =
     \<lparr>CLOUDINARY_CLOUD_NAME = Some ''demo'', CLOUDINARY_UPLOAD_PRESET = Some ''unsigned''\<rparr>"







section \<open>Notions used in the properties\<close>






section \<open>Properties\<close>

subsection \<open>Helper lemmas\<close>

lemma js_or_provided: "m \<noteq> [] \<Longrightarrow> js_or (Some m) d = m"
  by (simp add: js_or_def)

lemma js_or_fallback: "x = None \<or> x = Some [] \<Longrightarrow> js_or x d = d"
  by (auto simp: js_or_def)



lemma press_invalid: "sch v \<noteq> [] \<Longrightarrow> snd (press_submit dis sch onSubmit v s) = s"
  by (simp add: press_submit_def)


subsection \<open>Password validation\<close>

lemma dot_star_then_no_terminator:
  "\<forall>c\<in>set s. \<not> lineTerminator c \<Longrightarrow> dot_star_then cls s = (\<exists>c\<in>set s. cls c)"
  by (induction s) auto

lemma register_password_errors:
  "field_errors register_password_schema p = [] \<longleftrightarrow> (8 \<le> length p \<and> password_pattern p)"
  by (auto simp: field_errors_def register_password_schema_def min_length_def matches_def
      required_def)

lemma login_password_errors:
  "field_errors login_password_schema p = [] \<longleftrightarrow> 6 \<le> length p"
  by (auto simp: field_errors_def login_password_schema_def min_length_def required_def)

text \<open>
  C3, as the code has it. The three character classes are required on the registration
  screen only: there, a password without a line terminator is accepted exactly when it
  has at least 8 characters, a lowercase letter, an uppercase letter and a digit, so
  \<open>password1\<close> is rejected and \<open>Password1\<close> is accepted. The login screen accepts a password
  exactly when it has at least 6 characters.
\<close>

theorem password_policy_by_screen:
  "((\<forall>c\<in>set p. \<not> lineTerminator c) \<longrightarrow>
      (field_errors register_password_schema p = [] \<longleftrightarrow>
         (8 \<le> length p \<and> (\<exists>c\<in>set p. lower c) \<and> (\<exists>c\<in>set p. upper c) \<and>
          (\<exists>c\<in>set p. digit c)))) \<and>
   field_errors register_password_schema ''password1'' \<noteq> [] \<and>
   field_errors register_password_schema ''Password1'' = [] \<and>
   (field_errors login_password_schema q = [] \<longleftrightarrow> 6 \<le> length q)"
proof (intro conjI impI)
  assume "\<forall>c\<in>set p. \<not> lineTerminator c"
  then show "field_errors register_password_schema p = [] \<longleftrightarrow>
      (8 \<le> length p \<and> (\<exists>c\<in>set p. lower c) \<and> (\<exists>c\<in>set p. upper c) \<and>
       (\<exists>c\<in>set p. digit c))"
    by (simp add: register_password_errors password_pattern_def dot_star_then_no_terminator)
next
  show "field_errors register_password_schema ''password1'' \<noteq> []"
    by (simp add: register_password_errors password_pattern_def upper_def lineTerminator_def)
next
  show "field_errors register_password_schema ''Password1'' = []"
    by (simp add: register_password_errors password_pattern_def upper_def lower_def digit_def
        lineTerminator_def)
next
  show "field_errors login_password_schema q = [] \<longleftrightarrow> 6 \<le> length q"
    by (rule login_password_errors)
qed

text \<open>The policy at the password \<open>Passw0rd\<close>, which has no line terminator.\<close>

theorem password_policy_by_screen_witness:
  "field_errors register_password_schema ''Passw0rd'' = [] \<and>
   field_errors login_password_schema ''Passw0rd'' = [] \<and>
   list_ex lower ''Passw0rd'' \<and> list_ex upper ''Passw0rd'' \<and> list_ex digit ''Passw0rd''"
proof -
  have nt: "\<forall>c\<in>set ''Passw0rd''. \<not> lineTerminator c"
    by (simp add: lineTerminator_def)
  have classes: "8 \<le> length ''Passw0rd'' \<and> (\<exists>c\<in>set ''Passw0rd''. lower c) \<and>
      (\<exists>c\<in>set ''Passw0rd''. upper c) \<and> (\<exists>c\<in>set ''Passw0rd''. digit c)"
    by (simp add: lower_def upper_def digit_def)
  have len: "6 \<le> length ''Passw0rd''" by simp
  from password_policy_by_screen [of "''Passw0rd''" "''Passw0rd''"] nt classes len
  have "field_errors register_password_schema ''Passw0rd'' = [] \<and>
      field_errors login_password_schema ''Passw0rd'' = []" by blast
  with classes show ?thesis by (simp add: list_ex_iff)
qed

text \<open>
  C3 as stated fails on the login screen: \<open>password1\<close> has no uppercase letter and passes
  the login schema.
\<close>

theorem login_accepts_password1:
  "field_errors login_password_schema ''password1'' = [] \<and> \<not> list_ex upper ''password1''"
  by (simp add: login_password_errors upper_def)

subsection \<open>Degenerate answers of the authentication calls\<close>

text \<open>
  C10. When sign-in or sign-up answers with neither an error nor a user, the rest of
  \<open>handleSubmit\<close> only clears \<open>loading\<close>. After the whole submit the status is idle, no
  error and no success is set, nothing is navigated or scheduled, and local storage is as
  before.
\<close>

theorem degenerate_auth_response_is_silent:
  "login_handleSubmit_settle v (Resolved (Response (AuthData None) None)) s =
     s\<lparr>loading := False\<rparr> \<and>
   register_handleSubmit_settle w (Resolved (Response (AuthData None) None)) t =
     t\<lparr>loading := False\<rparr> \<and>
   (let s' = login_handleSubmit_settle v (Resolved (Response (AuthData None) None))
               (login_handleSubmit_begin v s)
    in login_submissionStatus s' = Idle \<and> error s' = None \<and> \<not> loading s' \<and>
       routed s' = routed s \<and> localStorage s' = localStorage s \<and>
       timeouts s' = timeouts s \<and> alerts s' = alerts s) \<and>
   (let t' = register_handleSubmit_settle w (Resolved (Response (AuthData None) None))
               (register_handleSubmit_begin siteUrl w t)
    in submissionStatus t' = Idle \<and> error t' = None \<and> \<not> success t' \<and> \<not> loading t' \<and>
       routed t' = routed t \<and> localStorage t' = localStorage t \<and>
       timeouts t' = timeouts t \<and> alerts t' = alerts t \<and>
       register_render t' = EditableForm register_initialValues False None False)"
  by (simp add: login_handleSubmit_begin_def register_handleSubmit_begin_def
      login_submissionStatus_def submissionStatus_def register_render_def Let_def)

subsection \<open>Registration, end to end\<close>

lemma scenarioA_valid:
  "emailOk ''jo@x.com'' \<Longrightarrow> register_validationSchema emailOk scenarioA_values = []"
  by (simp add: register_validationSchema_def scenarioA_values_def errors_at_def field_errors_def
      register_name_schema_def register_email_schema_def register_password_schema_def
      register_confirmPassword_schema_def register_terms_errors_def
      min_length_def max_length_def matches_def required_def oneOf_def
      password_pattern_def lower_def upper_def digit_def lineTerminator_def)

text \<open>
  C5. Provided the schema library's email test accepts \<open>jo@x.com\<close>, pressing submit on
  the freshly mounted registration screen with the values of scenario A and receiving an
  answer with a user gives: one remote call, the sign-up with that email and password;
  the success alert and no error alert; one timer, set when the answer is handled, that
  pushes \<open>/authentication/login\<close> after 3000 ms; no handler left suspended. (The button
  on the page is enabled at mount, and no render is needed in between.)
\<close>

theorem registration_scenario:
  "emailOk ''jo@x.com'' \<Longrightarrow>
   register_run emailOk siteUrl
     [Press scenarioA_values, Settle (Resolved (Response (AuthData (Some u)) None))]
     (register_mount, False, []) =
     (\<lparr>requests =
         [SignUp ''jo@x.com'' ''Passw0rd''
            \<lparr>first_name = ''Jo'', last_name = ''Ng'', full_name = ''Jo Ng'',
             emailRedirectTo = template siteUrl @ ''/authentication/login''\<rparr>],
       localStorage = Map.empty, routed = [],
       timeouts = [(3000, Push ''/authentication/login'')], alerts = [],
       loading = False, error = None, success = True\<rparr>, False, []) \<and>
   timeouts (fst (register_run emailOk siteUrl [Press scenarioA_values]
     (register_mount, False, []))) = [] \<and>
   register_render (fst (register_run emailOk siteUrl
     [Press scenarioA_values, Settle (Resolved (Response (AuthData (Some u)) None))]
     (register_mount, False, []))) = EditableForm register_initialValues True None False"
  by (simp add: register_run_def run_def press_submit_def scenarioA_valid
      register_mount_def register_handleSubmit_begin_def register_request_def
      register_render_def)
     (simp add: scenarioA_values_def)

text \<open>The scenario with an email test that accepts every string and a site URL.\<close>

theorem registration_scenario_witness:
  "register_run accept_all (Some ''https://site.example'')
     [Press scenarioA_values, Settle (Resolved (Response (AuthData (Some (User ''u1''))) None))]
     (register_mount, False, []) =
     (\<lparr>requests =
         [SignUp ''jo@x.com'' ''Passw0rd''
            \<lparr>first_name = ''Jo'', last_name = ''Ng'', full_name = ''Jo Ng'',
             emailRedirectTo = ''https://site.example/authentication/login''\<rparr>],
       localStorage = Map.empty, routed = [],
       timeouts = [(3000, Push ''/authentication/login'')], alerts = [],
       loading = False, error = None, success = True\<rparr>, False, [])"
proof -
  have ok: "accept_all ''jo@x.com''" by (simp add: accept_all_def)
  from ok registration_scenario [of accept_all "Some ''https://site.example''" "User ''u1''"]
  show ?thesis by (simp add: template_def)
qed

subsection \<open>Failed submits\<close>

lemma submit_settle_failed:
  "failed_call r \<Longrightarrow>
   submissionStatus (submit_settle fallback r s) = Failed (js_or (provided_message r) fallback)"
  by (cases "(fallback, r, s)" rule: submit_settle.cases)
     (auto simp: submissionStatus_def submit_catch_def)

lemma login_settle_failed:
  "failed_call r \<Longrightarrow>
   login_submissionStatus (login_handleSubmit_settle v r s) =
     Failed (js_or (provided_message r) ''Login failed. Please check your credentials.'')"
  by (cases "(v, r, s)" rule: login_handleSubmit_settle.cases)
     (auto simp: login_submissionStatus_def login_catch_def)

lemma register_settle_failed:
  "failed_call r \<Longrightarrow>
   submissionStatus (register_handleSubmit_settle v r s) =
     Failed (js_or (provided_message r) ''Registration failed. Please try again.'')"
  by (cases "(v, r, s)" rule: register_handleSubmit_settle.cases)
     (auto simp: submissionStatus_def register_catch_def)

text \<open>
  C6. When the remote call of a submit fails, on each of the six screens, the status
  becomes \<open>failed\<close> with the message of the failure when there is one, and with the
  screen's fixed fallback string when there is none. The message is read with \<open>||\<close>, so
  an empty message counts as none. \<open>ra\<close> is the outcome of an authentication call, \<open>rd\<close> of
  an insert or update.
\<close>

theorem failed_submit_shows_message:
  "(failed_call ra \<and> provided_message ra = Some m \<and> m \<noteq> [] \<longrightarrow>
      login_submissionStatus (login_handleSubmit_settle lv ra ls) = Failed m \<and>
      submissionStatus (register_handleSubmit_settle rv ra rs) = Failed m) \<and>
   (failed_call rd \<and> provided_message rd = Some n \<and> n \<noteq> [] \<longrightarrow>
      submissionStatus (createBlog_handleSubmit_settle rd cb) = Failed n \<and>
      submissionStatus (createSEOBanners_handleSubmit_settle rd cs) = Failed n \<and>
      submissionStatus (updateBlog_handleSubmit_settle rd ub) = Failed n \<and>
      submissionStatus (updateSEOBanners_handleSubmit_settle rd us) = Failed n) \<and>
   (failed_call ra \<and> (provided_message ra = None \<or> provided_message ra = Some []) \<longrightarrow>
      login_submissionStatus (login_handleSubmit_settle lv ra ls) =
        Failed ''Login failed. Please check your credentials.'' \<and>
      submissionStatus (register_handleSubmit_settle rv ra rs) =
        Failed ''Registration failed. Please try again.'') \<and>
   (failed_call rd \<and> (provided_message rd = None \<or> provided_message rd = Some []) \<longrightarrow>
      submissionStatus (createBlog_handleSubmit_settle rd cb) = Failed ''Failed to create blog'' \<and>
      submissionStatus (createSEOBanners_handleSubmit_settle rd cs) =
        Failed ''Failed to create SEO Banner'' \<and>
      submissionStatus (updateBlog_handleSubmit_settle rd ub) = Failed ''Failed to update blog'' \<and>
      submissionStatus (updateSEOBanners_handleSubmit_settle rd us) =
        Failed ''Failed to update SEO Banner'')"
proof -
  note defs = createBlog_handleSubmit_settle_def createSEOBanners_handleSubmit_settle_def
    updateBlog_handleSubmit_settle_def updateSEOBanners_handleSubmit_settle_def
  have a: "failed_call ra \<and> provided_message ra = Some m \<and> m \<noteq> [] \<longrightarrow>
      login_submissionStatus (login_handleSubmit_settle lv ra ls) = Failed m \<and>
      submissionStatus (register_handleSubmit_settle rv ra rs) = Failed m"
    by (simp add: login_settle_failed register_settle_failed js_or_provided)
  have b: "failed_call rd \<and> provided_message rd = Some n \<and> n \<noteq> [] \<longrightarrow>
      submissionStatus (createBlog_handleSubmit_settle rd cb) = Failed n \<and>
      submissionStatus (createSEOBanners_handleSubmit_settle rd cs) = Failed n \<and>
      submissionStatus (updateBlog_handleSubmit_settle rd ub) = Failed n \<and>
      submissionStatus (updateSEOBanners_handleSubmit_settle rd us) = Failed n"
    by (simp add: defs submit_settle_failed js_or_provided)
  have c: "failed_call ra \<and> (provided_message ra = None \<or> provided_message ra = Some []) \<longrightarrow>
      login_submissionStatus (login_handleSubmit_settle lv ra ls) =
        Failed ''Login failed. Please check your credentials.'' \<and>
      submissionStatus (register_handleSubmit_settle rv ra rs) =
        Failed ''Registration failed. Please try again.''"
    by (auto simp: login_settle_failed register_settle_failed js_or_def)
  have d: "failed_call rd \<and> (provided_message rd = None \<or> provided_message rd = Some []) \<longrightarrow>
      submissionStatus (createBlog_handleSubmit_settle rd cb) = Failed ''Failed to create blog'' \<and>
      submissionStatus (createSEOBanners_handleSubmit_settle rd cs) =
        Failed ''Failed to create SEO Banner'' \<and>
      submissionStatus (updateBlog_handleSubmit_settle rd ub) = Failed ''Failed to update blog'' \<and>
      submissionStatus (updateSEOBanners_handleSubmit_settle rd us) =
        Failed ''Failed to update SEO Banner''"
    by (auto simp: defs submit_settle_failed js_or_def)
  from a b c d show ?thesis by blast
qed

text \<open>
  A sign-in rejected with a message, an update answered with an error object, a sign-in
  that rejects with a value without message, and an insert whose error has an empty
  message.
\<close>

theorem failed_submit_shows_message_witness:
  "login_submissionStatus
     (login_handleSubmit_settle login_initialValues
        (Resolved (Response (AuthData None) (Some (RemoteError ''Invalid login credentials''))))
        login_mount) = Failed ''Invalid login credentials'' \<and>
   submissionStatus
     (updateBlog_handleSubmit_settle (Resolved (Response () (Some (RemoteError ''duplicate key''))))
        (update_mount sample_blog)) = Failed ''duplicate key'' \<and>
   login_submissionStatus
     (login_handleSubmit_settle login_initialValues (Rejected (Error None)) login_mount) =
     Failed ''Login failed. Please check your credentials.'' \<and>
   submissionStatus
     (createBlog_handleSubmit_settle (Resolved (Response () (Some (RemoteError []))))
        createBlog_mount) = Failed ''Failed to create blog''"
proof -
  have 1: "failed_call (Resolved (Response (AuthData None)
             (Some (RemoteError ''Invalid login credentials'')))) \<and>
           provided_message (Resolved (Response (AuthData None)
             (Some (RemoteError ''Invalid login credentials'')))) =
             Some ''Invalid login credentials'' \<and> ''Invalid login credentials'' \<noteq> []"
    by simp
  have 2: "failed_call (Resolved (Response () (Some (RemoteError ''duplicate key'')))) \<and>
           provided_message (Resolved (Response () (Some (RemoteError ''duplicate key'')))) =
             Some ''duplicate key'' \<and> ''duplicate key'' \<noteq> []"
    by simp
  have 3: "failed_call (Rejected (Error None) :: auth_data awaited) \<and>
           (provided_message (Rejected (Error None) :: auth_data awaited) = None \<or>
            provided_message (Rejected (Error None) :: auth_data awaited) = Some [])"
    by simp
  have 4: "failed_call (Resolved (Response () (Some (RemoteError [])))) \<and>
           (provided_message (Resolved (Response () (Some (RemoteError [])))) = None \<or>
            provided_message (Resolved (Response () (Some (RemoteError [])))) = Some [])"
    by simp
  from 1 2
    failed_submit_shows_message
      [where ra = "Resolved (Response (AuthData None)
                     (Some (RemoteError ''Invalid login credentials'')))"
         and m = "''Invalid login credentials''" and lv = login_initialValues
         and ls = login_mount
         and rd = "Resolved (Response () (Some (RemoteError ''duplicate key'')))"
         and n = "''duplicate key''" and ub = "update_mount sample_blog"]
  have a: "login_submissionStatus
     (login_handleSubmit_settle login_initialValues
        (Resolved (Response (AuthData None) (Some (RemoteError ''Invalid login credentials''))))
        login_mount) = Failed ''Invalid login credentials'' \<and>
   submissionStatus
     (updateBlog_handleSubmit_settle (Resolved (Response () (Some (RemoteError ''duplicate key''))))
        (update_mount sample_blog)) = Failed ''duplicate key''"
    by blast
  from 3 4
    failed_submit_shows_message
      [where ra = "Rejected (Error None)" and lv = login_initialValues and ls = login_mount
         and rd = "Resolved (Response () (Some (RemoteError [])))" and cb = createBlog_mount]
  have b: "login_submissionStatus
     (login_handleSubmit_settle login_initialValues (Rejected (Error None)) login_mount) =
     Failed ''Login failed. Please check your credentials.'' \<and>
   submissionStatus
     (createBlog_handleSubmit_settle (Resolved (Response () (Some (RemoteError []))))
        createBlog_mount) = Failed ''Failed to create blog''"
    by blast
  from a b show ?thesis by blast
qed

subsection \<open>The guard against a second submit\<close>















subsection \<open>Fetch failure on the update screens\<close>





subsection \<open>The validation gate of the create-blog screen\<close>

lemma array_schema_single: "array_schema p msg item [x] = item (p @ [Index 0]) x"
  by (simp add: array_schema_def)

lemma blank_tag_error:
  "tags_list (content_tags (content values)) = [x] \<Longrightarrow> item_text x = [] \<Longrightarrow>
   ([Key ''content'', Key ''tags'', Key ''list'', Index 0, Key ''text''], ''Tag is required'')
     \<in> set (blog_validationSchema urlOk values)"
  by (simp add: blog_validationSchema_def content_schema_def array_schema_single
      text_item_schema_def errors_at_def field_errors_def required_def)

text \<open>
  C7. When the tag list of the create-blog form is one entry with an empty text, pressing
  submit leaves the screen as it is, so no remote call is made, and, the button being
  enabled, the errors object has \<open>Tag is required\<close> at \<open>content.tags.list[0].text\<close>. More
  generally, a press with values that have any validation error makes no remote call.
\<close>

theorem blank_tag_blocks_create:
  "(tags_list (content_tags (content vals)) = [x] \<and> item_text x = [] \<longrightarrow>
      snd (createBlog_press urlOk vals s) = s \<and>
      requests (snd (createBlog_press urlOk vals s)) = requests s \<and>
      (\<not> loading s \<longrightarrow>
         ([Key ''content'', Key ''tags'', Key ''list'', Index 0, Key ''text''],
          ''Tag is required'') \<in> set (fst (createBlog_press urlOk vals s)))) \<and>
   (blog_validationSchema urlOk vals \<noteq> [] \<longrightarrow>
      requests (snd (createBlog_press urlOk vals s)) = requests s)"
proof (intro conjI impI)
  assume "blog_validationSchema urlOk vals \<noteq> []"
  then show "requests (snd (createBlog_press urlOk vals s)) = requests s"
    by (simp add: createBlog_press_def press_invalid)
next
  assume a: "tags_list (content_tags (content vals)) = [x] \<and> item_text x = []"
  then have m:
    "([Key ''content'', Key ''tags'', Key ''list'', Index 0, Key ''text''], ''Tag is required'')
       \<in> set (blog_validationSchema urlOk vals)"
    by (simp add: blank_tag_error)
  then have ne: "blog_validationSchema urlOk vals \<noteq> []" by auto
  from ne show 1: "snd (createBlog_press urlOk vals s) = s"
    by (simp add: createBlog_press_def press_invalid)
  from 1 show "requests (snd (createBlog_press urlOk vals s)) = requests s" by simp
  assume "\<not> loading s"
  with m ne show
    "([Key ''content'', Key ''tags'', Key ''list'', Index 0, Key ''text''], ''Tag is required'')
       \<in> set (fst (createBlog_press urlOk vals s))"
    by (simp add: createBlog_press_def press_submit_def submitDisabled_def)
qed

text \<open>
  The freshly mounted create-blog screen with its initial values, whose one tag is blank.
\<close>

theorem blank_tag_blocks_create_witness:
  "requests (snd (createBlog_press accept_all (blog_initialValues ''2024-01-01'') createBlog_mount))
     = [] \<and>
   ([Key ''content'', Key ''tags'', Key ''list'', Index 0, Key ''text''], ''Tag is required'')
     \<in> set (fst (createBlog_press accept_all (blog_initialValues ''2024-01-01'')
           createBlog_mount))"
proof -
  have 1: "tags_list (content_tags (content (blog_initialValues ''2024-01-01''))) =
             [\<lparr>item_text = [], item_id = None\<rparr>] \<and>
           item_text \<lparr>item_text = [], item_id = None\<rparr> = []"
    by (simp add: blog_initialValues_def)
  have 2: "\<not> loading createBlog_mount" by (simp add: createBlog_mount_def)
  from 1 2
    blank_tag_blocks_create
      [where vals = "blog_initialValues ''2024-01-01''"
         and x = "\<lparr>item_text = [], item_id = None\<rparr>" and s = createBlog_mount
         and urlOk = accept_all]
  have "snd (createBlog_press accept_all (blog_initialValues ''2024-01-01'') createBlog_mount) =
          createBlog_mount \<and>
        ([Key ''content'', Key ''tags'', Key ''list'', Index 0, Key ''text''], ''Tag is required'')
          \<in> set (fst (createBlog_press accept_all (blog_initialValues ''2024-01-01'')
                createBlog_mount))"
    by blast
  then show ?thesis by (simp add: createBlog_mount_def)
qed

subsection \<open>Hydration of the update screens\<close>




lemma transformed_list_blank:
  "xs = None \<or> xs = Some (JsArray []) \<Longrightarrow> transformed_list f blank xs = Inr [blank]"
  by (auto simp: transformed_list_def)














subsection \<open>File upload\<close>

lemma upload_ok:
  "\<not> falsy (CLOUDINARY_CLOUD_NAME env) \<Longrightarrow> \<not> falsy (CLOUDINARY_UPLOAD_PRESET env) \<Longrightarrow>
   uploadToCloudinary env folder fl t (Ok url) = Inr url"
  by (simp add: uploadToCloudinary_def uploadToCloudinary_request_def)

text \<open>
  C8. When an upload to the OG-image field resolves with a URL, the values of the form
  change at \<open>seo.openGraph.image\<close> only, which becomes that URL. Selecting a file in the
  enabled OG-image field, with Cloudinary configured, sets the field to uploading and
  leaves the values alone; when the upload then answers with \<open>secure_url\<close>, the field is
  idle again, the values are the old ones with \<open>seo.openGraph.image\<close> set to
  \<open>secure_url\<close>, and the upload status of the other two fields, the submit hooks and the
  alerts are as before.
\<close>

theorem og_image_upload_frame:
  "formValues (handleFileUpload_settle OG_Image (Inr secure_url) t) =
     (formValues t)\<lparr>seo := (seo (formValues t))\<lparr>seo_openGraph :=
        (seo_openGraph (seo (formValues t)))\<lparr>og_image := secure_url\<rparr>\<rparr>\<rparr> \<and>
   (\<not> loading s \<and> \<not> isUploading OG_Image s \<and>
    \<not> falsy (CLOUDINARY_CLOUD_NAME env) \<and> \<not> falsy (CLOUDINARY_UPLOAD_PRESET env) \<longrightarrow>
    (let s1 = select_file env OG_Image (Some fl) s;
         s2 = handleFileUpload_settle OG_Image
                (uploadToCloudinary env ''blogs'' fl (field_type OG_Image) (Ok secure_url)) s1
     in isUploading OG_Image s1 \<and> formValues s1 = formValues s \<and>
        \<not> isUploading OG_Image s2 \<and>
        og_image (seo_openGraph (seo (formValues s2))) = secure_url \<and>
        formValues s2 =
          (formValues s)\<lparr>seo := (seo (formValues s))\<lparr>seo_openGraph :=
             (seo_openGraph (seo (formValues s)))\<lparr>og_image := secure_url\<rparr>\<rparr>\<rparr> \<and>
        isUploading Video_URL s2 = isUploading Video_URL s \<and>
        isUploading Poster_Image s2 = isUploading Poster_Image s \<and>
        loading s2 = loading s \<and> error s2 = error s \<and> success s2 = success s \<and>
        alerts s2 = alerts s))"
  by (auto simp: Let_def select_file_def handleFileUpload_begin_def handleFileUpload_settle_def
      upload_ok isUploading_def onUpload_def field_name_def)

text \<open>An upload of \<open>og.png\<close> on the freshly mounted create screen.\<close>

theorem og_image_upload_frame_witness:
  "(let s1 = select_file sample_cloudinary OG_Image (Some (File ''og.png'')) createSEOBanners_mount;
        s2 = handleFileUpload_settle OG_Image
               (uploadToCloudinary sample_cloudinary ''blogs'' (File ''og.png'') MediaImage
                  (Ok ''https://res.cloudinary.com/demo/og.png'')) s1
    in isUploading OG_Image s1 \<and> \<not> isUploading OG_Image s2 \<and>
       formValues s2 =
         seoBanner_initialValues\<lparr>seo := initial_seo\<lparr>seo_openGraph :=
            (seo_openGraph initial_seo)\<lparr>og_image := ''https://res.cloudinary.com/demo/og.png''\<rparr>\<rparr>\<rparr>)"
proof -
  have h: "\<not> loading createSEOBanners_mount \<and> \<not> isUploading OG_Image createSEOBanners_mount \<and>
    \<not> falsy (CLOUDINARY_CLOUD_NAME sample_cloudinary) \<and>
    \<not> falsy (CLOUDINARY_UPLOAD_PRESET sample_cloudinary)"
    by (simp add: createSEOBanners_mount_def isUploading_def falsy_def sample_cloudinary_def)
  have v: "formValues createSEOBanners_mount = seoBanner_initialValues"
    "seo seoBanner_initialValues = initial_seo"
    by (simp_all add: createSEOBanners_mount_def seoBanner_initialValues_def)
  from h
    og_image_upload_frame
      [where s = createSEOBanners_mount and env = sample_cloudinary and fl = "File ''og.png''"
         and secure_url = "''https://res.cloudinary.com/demo/og.png''"]
  show ?thesis
    by (simp add: Let_def v field_type_def)
qed

subsection \<open>Loading a blog and submitting it unchanged\<close>
















end
